theory Spec2Isabelle
  imports Complex_Main "HOL-Library.Sublist" "HOL-Library.Log_Nat"
begin

section \<open>The trading bot of \<open>src/drift-bot.ts\<close>\<close>

text \<open>
  The bot is one asynchronous workflow over an exchange client of the SDK. The model is a
  shallow embedding: every function of the source is a HOL function from the answers the
  outside world gives (the record \<open>world\<close>) to the list of calls the run makes, in order,
  and its outcome. A thrown value is the left summand of the outcome.

  The constructors of the SDK's objects, its conversions of units and the console are
  taken to return normally; every awaited call of the SDK may throw. Of the console output
  only the diagnostics of \<open>placeTrade\<close>'s handler are kept, the one place where what is
  printed follows from a decision on the error.
\<close>

subsection \<open>Numbers\<close>

text \<open>
  A JavaScript \<open>number\<close> is an IEEE 754 double. The model keeps its value as a rational
  and rounds the result of every division, subtraction and multiplication of the source to
  the nearest double, ties to even (\<open>double\<close>): 53 bits of significand under the exponent
  \<open>exponent\<close> of the value. Comparisons of doubles are exact. The range of the exponent is
  not bounded: the balances of this program are quotients and differences of integers
  below \<open>2^53\<close> and of \<open>1e9\<close>, far from overflow and from subnormal numbers. A literal
  of the source (\<open>0.1\<close>) is kept as it is written and stands for its nearest double
  where the source computes with it or compares it.
\<close>

definition roundEven :: "rat \<Rightarrow> int" where
  "roundEven m =
     (let f = \<lfloor>m\<rfloor>; r = m - of_int f
      in if r < 1 / 2 then f else if 1 / 2 < r then f + 1 else if even f then f else f + 1)"

text \<open>For \<open>x > 0\<close>, the integer \<open>e\<close> with \<open>2^e \<le> x < 2^(e+1)\<close>.\<close>

definition exponent :: "rat \<Rightarrow> int" where
  "exponent x =
     (if 1 \<le> x then bitlen \<lfloor>x\<rfloor> - 1
      else (let k = bitlen \<lfloor>1 / x\<rfloor> - 1
            in if x * 2 powi k = 1 then - k else - k - 1))"

definition double :: "rat \<Rightarrow> rat" where
  "double x =
     (if x = 0 then 0
      else (let u = 2 powi (exponent \<bar>x\<bar> - 52)
            in sgn x * of_int (roundEven (\<bar>x\<bar> / u)) * u))"

definition fdiv :: "rat \<Rightarrow> rat \<Rightarrow> rat" where
  "fdiv x y = double (x / y)"

definition fsub :: "rat \<Rightarrow> rat \<Rightarrow> rat" where
  "fsub x y = double (x - y)"

definition fmul :: "rat \<Rightarrow> rat \<Rightarrow> rat" where
  "fmul x y = double (x * y)"

subsection \<open>Values\<close>

text \<open>
  The thrown values the source tells apart: \<open>SendTransactionError\<close> (with its \<open>logs\<close>
  field, \<open>string[] | undefined\<close>) and any other \<open>Error\<close> with its message.
\<close>

datatype js_error =
    Error string
  | SendTransactionError "string list option"

type_synonym key = nat

record Keypair =
  publicKey :: key
  secretKey :: key

text \<open>\<open>BOT_CONFIG\<close>, its numbers as they are written in the source.\<close>

record BotConfig =
  marketIndex :: nat
  orderSize :: rat
  price :: rat
  depositAmount :: rat
  useDelegate :: bool
  delegateTradingAccountId :: nat
  network :: string

definition BOT_CONFIG :: BotConfig where
  "BOT_CONFIG =
     \<lparr> marketIndex = 1, orderSize = 1 / 10, price = 16535 / 100, depositAmount = 1 / 2,
       useDelegate = False, delegateTradingAccountId = 0, network = ''devnet'' \<rparr>"

text \<open>An entry of the SDK's \<open>PerpMarkets\<close> table, with the two fields the source reads.\<close>

record PerpMarket =
  baseAssetSymbol :: string
  perp_marketIndex :: nat

text \<open>
  A spot position as the source reads it: each field holds what \<open>.toNumber()\<close> gives on
  it, the integer (below \<open>2^53\<close> in size, so a double) or the error the big-number
  library throws.
\<close>

record SpotPosition =
  cumulativeDeposits :: "js_error + int"
  scaledBalance :: "js_error + int"

datatype client = MainClient | DelegateClient

record OrderParams =
  order_marketIndex :: nat
  baseAssetAmount :: rat
  order_price :: rat

text \<open>What a run does, in order: the calls on the SDK, the timers, the diagnostics of
  \<open>placeTrade\<close>'s handler and the exit of the process.\<close>

datatype event =
    LoadKeypair
  | GetBalance
  | Subscribe client
  | HasUser
  | InitializeUserAccount nat
  | SetTimeout nat
  | GetUserAccount
  | GetUserAccountPublicKey
  | UserSubscribe
  | KeypairGenerate
  | UpdateUserDelegate key nat
  | GetSpotPosition nat
  | GetAssociatedTokenAccount client nat
  | Deposit client rat nat
  | PlacePerpOrder client OrderParams
  | ConsoleTransactionFailed
  | ConsoleSimulationLogs "string list option"
  | ConsoleOrderSizeTooSmall
  | ConsoleFullError js_error
  | ProcessExit nat

text \<open>
  The answers of the outside world, one field for each place the source asks. The two
  readings of the spot position and of the user account are the two places the source
  reads them.
\<close>

record world =
  PerpMarkets_devnet :: "PerpMarket list"
  PerpMarkets_mainnet :: "PerpMarket list"
  loadKeypair :: "js_error + Keypair"
  connection_getBalance :: "js_error + nat"
  main_subscribe :: "js_error + unit"
  hasUser :: bool
  initializeUserAccount :: "js_error + string"
  getUserAccount_1 :: "js_error + bool"
  getUserAccount_2 :: "js_error + bool"
  getUserAccountPublicKey :: "js_error + key"
  user_subscribe :: "js_error + unit"
  Keypair_generate :: Keypair
  updateUserDelegate :: "js_error + string"
  delegate_subscribe :: "js_error + unit"
  getSpotPosition_1 :: "js_error + SpotPosition option"
  getSpotPosition_2 :: "js_error + SpotPosition option"
  getAssociatedTokenAccount :: "js_error + key"
  deposit :: "js_error + string"
  placePerpOrder :: "js_error + string"

subsection \<open>Runs\<close>

type_synonym 'a run = "event list \<times> (js_error + 'a)"

definition returns :: "'a \<Rightarrow> 'a run" where
  "returns x = ([], Inr x)"

definition throws :: "js_error \<Rightarrow> 'a run" where
  "throws e = ([], Inl e)"

definition calls :: "event \<Rightarrow> js_error + 'a \<Rightarrow> 'a run" where
  "calls ev r = ([ev], r)"

definition emits :: "event \<Rightarrow> unit run" where
  "emits ev = ([ev], Inr ())"

definition andThen :: "'a run \<Rightarrow> ('a \<Rightarrow> 'b run) \<Rightarrow> 'b run" where
  "andThen m f =
     (case m of
        (t, Inl e) \<Rightarrow> (t, Inl e)
      | (t, Inr x) \<Rightarrow> (case f x of (t', r) \<Rightarrow> (t @ t', r)))"

definition tryCatch :: "'a run \<Rightarrow> (js_error \<Rightarrow> 'a run) \<Rightarrow> 'a run" where
  "tryCatch m h =
     (case m of
        (t, Inl e) \<Rightarrow> (case h e of (t', r) \<Rightarrow> (t @ t', r))
      | (t, Inr x) \<Rightarrow> (t, Inr x))"

subsection \<open>\<open>getTokenInfo\<close>, \<open>getBalance\<close>, \<open>getTradingAccountBalance\<close>\<close>

definition getTokenInfo :: "BotConfig \<Rightarrow> world \<Rightarrow> string \<Rightarrow> PerpMarket run" where
  "getTokenInfo cfg w symbol =
     (let markets =
        (if network cfg = ''devnet'' then PerpMarkets_devnet w else PerpMarkets_mainnet w)
      in case find (\<lambda>market. baseAssetSymbol market = symbol) markets of
           None \<Rightarrow> throws (Error (''Token info for '' @ symbol @ '' not found''))
         | Some tokenInfo \<Rightarrow> returns tokenInfo)"

definition getBalance :: "world \<Rightarrow> nat run" where
  "getBalance w = calls GetBalance (connection_getBalance w)"

text \<open>
  \<open>getTradingAccountBalance\<close> gives \<open>number | null\<close>. Its inner handler takes every throw
  of \<open>getSpotPosition\<close> and of \<open>toNumber\<close> to the \<open>return 0\<close> below it; \<open>null\<close> is the
  result of the outer handler only, which nothing in the body reaches. The argument is
  what \<open>user.getSpotPosition\<close> answers at this reading.
\<close>

definition getTradingAccountBalance ::
    "BotConfig \<Rightarrow> js_error + SpotPosition option \<Rightarrow> (rat option) run" where
  "getTradingAccountBalance cfg r =
     andThen (emits (GetSpotPosition (marketIndex cfg))) (\<lambda>_.
       case r of
         Inl error \<Rightarrow> returns (Some 0)
       | Inr None \<Rightarrow> returns (Some 0)
       | Inr (Some solPosition) \<Rightarrow>
           (case cumulativeDeposits solPosition of
              Inl error \<Rightarrow> returns (Some 0)
            | Inr cd \<Rightarrow>
                (case scaledBalance solPosition of
                   Inl error \<Rightarrow> returns (Some 0)
                 | Inr sb \<Rightarrow>
                     returns (Some (fsub (fdiv (of_int cd) (10 ^ 9))
                                         (fdiv (of_int sb) (10 ^ 9)))))))"

subsection \<open>\<open>depositToTradingAccount\<close> and the delegate\<close>

text \<open>The handlers of these functions log the error and throw it again.\<close>

definition depositToTradingAccount ::
    "BotConfig \<Rightarrow> world \<Rightarrow> client \<Rightarrow> rat \<Rightarrow> string run" where
  "depositToTradingAccount cfg w driftClient amount =
     tryCatch
       (andThen (calls (GetAssociatedTokenAccount driftClient (marketIndex cfg))
                   (getAssociatedTokenAccount w)) (\<lambda>associatedTokenAccount.
        calls (Deposit driftClient amount (marketIndex cfg)) (deposit w)))
       (\<lambda>error. throws error)"

definition generateDelegateKeypair :: "world \<Rightarrow> Keypair run" where
  "generateDelegateKeypair w = calls KeypairGenerate (Inr (Keypair_generate w))"

definition setupDelegate :: "world \<Rightarrow> nat \<Rightarrow> Keypair run" where
  "setupDelegate w accountId =
     tryCatch
       (andThen (generateDelegateKeypair w) (\<lambda>delegateAccount.
        andThen (calls (UpdateUserDelegate (publicKey delegateAccount) accountId)
                   (updateUserDelegate w)) (\<lambda>_.
        returns delegateAccount)))
       (\<lambda>error. throws error)"

definition createDelegateClient :: "world \<Rightarrow> Keypair \<Rightarrow> Keypair \<Rightarrow> client run" where
  "createDelegateClient w delegateAccount mainWallet =
     tryCatch
       (andThen (calls (Subscribe DelegateClient) (delegate_subscribe w)) (\<lambda>_.
        returns DelegateClient))
       (\<lambda>error. throws error)"

subsection \<open>\<open>placeTrade\<close>\<close>

text \<open>\<open>const requiredCollateral = BOT_CONFIG.orderSize * 2\<close>.\<close>

definition requiredCollateral :: "BotConfig \<Rightarrow> rat" where
  "requiredCollateral cfg = fmul (double (orderSize cfg)) 2"

text \<open>
  The truth value of a \<open>number | null\<close> and its comparison with a number (\<open>null\<close> is
  converted to \<open>0\<close>), as JavaScript evaluates them.
\<close>

definition truthy :: "rat option \<Rightarrow> bool" where
  "truthy v = (case v of None \<Rightarrow> False | Some x \<Rightarrow> x \<noteq> 0)"

definition lessThan_js :: "rat option \<Rightarrow> rat \<Rightarrow> bool" where
  "lessThan_js v r = (case v of None \<Rightarrow> 0 < r | Some x \<Rightarrow> x < r)"

text \<open>\<open>e.logs && e.logs.some((log) => log.includes("OrderAmountTooSmall"))\<close>.\<close>

definition orderAmountTooSmall :: "string list option \<Rightarrow> bool" where
  "orderAmountTooSmall logs =
     (case logs of
        None \<Rightarrow> False
      | Some ls \<Rightarrow> list_ex (\<lambda>log. sublist ''OrderAmountTooSmall'' log) ls)"

text \<open>The \<open>catch\<close> block of \<open>placeTrade\<close>: diagnostics, then \<open>throw e\<close>.\<close>

definition placeTrade_catch :: "js_error \<Rightarrow> string run" where
  "placeTrade_catch e =
     andThen
       (case e of
          SendTransactionError logs \<Rightarrow>
            andThen (emits ConsoleTransactionFailed) (\<lambda>_.
            andThen (emits (ConsoleSimulationLogs logs)) (\<lambda>_.
            if orderAmountTooSmall logs then emits ConsoleOrderSizeTooSmall
            else emits (ConsoleFullError e)))
        | Error msg \<Rightarrow> returns ())
       (\<lambda>_. throws e)"

definition placeTrade :: "BotConfig \<Rightarrow> world \<Rightarrow> client \<Rightarrow> string run" where
  "placeTrade cfg w driftClient =
     tryCatch
       (andThen (getTokenInfo cfg w ''SOL'') (\<lambda>tokenInfo.
        andThen (getTradingAccountBalance cfg (getSpotPosition_1 w)) (\<lambda>tradingAccountBalance.
        andThen
          (if \<not> truthy tradingAccountBalance
              \<or> lessThan_js tradingAccountBalance (requiredCollateral cfg)
           then
             andThen (depositToTradingAccount cfg w driftClient (depositAmount cfg)) (\<lambda>_.
             andThen (emits (SetTimeout 5000)) (\<lambda>_.
             andThen (getTradingAccountBalance cfg (getSpotPosition_2 w))
               (\<lambda>newTradingAccountBalance.
             if truthy newTradingAccountBalance
                \<and> lessThan_js newTradingAccountBalance (requiredCollateral cfg)
             then throws
               (Error ''Still insufficient balance in trading account after deposit'')
             else returns ())))
           else returns ()) (\<lambda>_.
        let orderParams =
          \<lparr> order_marketIndex = perp_marketIndex tokenInfo,
            baseAssetAmount = orderSize cfg,
            order_price = price cfg \<rparr>
        in calls (PlacePerpOrder driftClient orderParams) (placePerpOrder w)))))
       placeTrade_catch"

subsection \<open>\<open>main\<close> and the exit of the process\<close>

text \<open>The block of \<open>main\<close> that creates the user account when \<open>hasUser()\<close> is false.\<close>

definition main_userAccount :: "world \<Rightarrow> unit run" where
  "main_userAccount w =
     andThen (emits HasUser) (\<lambda>_.
     if \<not> hasUser w then
       tryCatch
         (andThen (calls (InitializeUserAccount 0) (initializeUserAccount w)) (\<lambda>txSig.
          andThen (emits (SetTimeout 5000)) (\<lambda>_.
          andThen (calls GetUserAccount (getUserAccount_1 w)) (\<lambda>userAccount.
          if \<not> userAccount then
            andThen (emits (SetTimeout 3000)) (\<lambda>_.
            andThen (calls GetUserAccount (getUserAccount_2 w)) (\<lambda>userAccount.
            if \<not> userAccount then throws (Error ''User account still not found after'')
            else returns ()))
          else returns ()))))
         (\<lambda>error. throws error)
     else returns ())"

text \<open>The block of \<open>main\<close> that chooses the trading client.\<close>

definition main_tradingClient :: "BotConfig \<Rightarrow> world \<Rightarrow> Keypair \<Rightarrow> client run" where
  "main_tradingClient cfg w mainWallet =
     (if useDelegate cfg then
        andThen (setupDelegate w (delegateTradingAccountId cfg)) (\<lambda>delegateAccount.
        createDelegateClient w delegateAccount mainWallet)
      else returns MainClient)"

definition main :: "BotConfig \<Rightarrow> world \<Rightarrow> unit run" where
  "main cfg w =
     andThen (calls LoadKeypair (loadKeypair w)) (\<lambda>mainWallet.
     andThen (getBalance w) (\<lambda>balance.
     if of_nat balance < double (1 / 10) then returns ()
     else
       andThen (calls (Subscribe MainClient) (main_subscribe w)) (\<lambda>_.
       andThen (main_userAccount w) (\<lambda>_.
       andThen (calls GetUserAccountPublicKey (getUserAccountPublicKey w))
         (\<lambda>userAccountPublicKey.
       andThen (calls UserSubscribe (user_subscribe w)) (\<lambda>_.
       andThen (main_tradingClient cfg w mainWallet) (\<lambda>tradingClient.
       andThen (placeTrade cfg w tradingClient) (\<lambda>_.
       returns ()))))))))"

text \<open>\<open>main().then(() => process.exit(0)).catch((err) => process.exit(1))\<close>.\<close>

definition exitCode :: "BotConfig \<Rightarrow> world \<Rightarrow> nat" where
  "exitCode cfg w = (case snd (main cfg w) of Inr _ \<Rightarrow> 0 | Inl err \<Rightarrow> 1)"

definition process :: "BotConfig \<Rightarrow> world \<Rightarrow> event list" where
  "process cfg w = fst (main cfg w) @ [ProcessExit (exitCode cfg w)]"

subsection \<open>Kinds of calls, and the worlds of the scenarios\<close>

fun isDeposit :: "event \<Rightarrow> bool" where
  "isDeposit (Deposit c a m) = True"
| "isDeposit _ = False"

fun isPlacePerpOrder :: "event \<Rightarrow> bool" where
  "isPlacePerpOrder (PlacePerpOrder c p) = True"
| "isPlacePerpOrder _ = False"

fun isGetSpotPosition :: "event \<Rightarrow> bool" where
  "isGetSpotPosition (GetSpotPosition m) = True"
| "isGetSpotPosition _ = False"

text \<open>The calls that change the state of the exchange: each sends a transaction.\<close>

fun isMutating :: "event \<Rightarrow> bool" where
  "isMutating (InitializeUserAccount n) = True"
| "isMutating (UpdateUserDelegate k n) = True"
| "isMutating (Deposit c a m) = True"
| "isMutating (PlacePerpOrder c p) = True"
| "isMutating _ = False"

text \<open>
  A devnet world in which the wallet holds 1 SOL, the user account exists, the SOL spot
  position is absent at both readings and every call succeeds. The scenarios below change
  single answers of it.
\<close>

definition devnetWorld :: world where
  "devnetWorld =
     \<lparr> PerpMarkets_devnet = [\<lparr> baseAssetSymbol = ''SOL'', perp_marketIndex = 0 \<rparr>],
       PerpMarkets_mainnet = [],
       loadKeypair = Inr \<lparr> publicKey = 11, secretKey = 12 \<rparr>,
       connection_getBalance = Inr 1000000000,
       main_subscribe = Inr (),
       hasUser = True,
       initializeUserAccount = Inr ''sig-init'',
       getUserAccount_1 = Inr True,
       getUserAccount_2 = Inr True,
       getUserAccountPublicKey = Inr 13,
       user_subscribe = Inr (),
       Keypair_generate = \<lparr> publicKey = 21, secretKey = 22 \<rparr>,
       updateUserDelegate = Inr ''sig-delegate'',
       delegate_subscribe = Inr (),
       getSpotPosition_1 = Inr None,
       getSpotPosition_2 = Inr None,
       getAssociatedTokenAccount = Inr 14,
       deposit = Inr ''sig-deposit'',
       placePerpOrder = Inr ''sig-order'' \<rparr>"

text \<open>A spot position with the given deposits and balance, both in units of \<open>1e-9\<close> SOL.\<close>

definition position :: "int \<Rightarrow> int \<Rightarrow> js_error + SpotPosition option" where
  "position cd sb = Inr (Some \<lparr> cumulativeDeposits = Inr cd, scaledBalance = Inr sb \<rparr>)"

section \<open>Properties\<close>

subsection \<open>Rounding\<close>

lemma roundEven_floor: "\<lfloor>m\<rfloor> \<le> roundEven m \<and> roundEven m \<le> \<lfloor>m\<rfloor> + 1"
  by (simp add: roundEven_def Let_def)

lemma roundEven_of_int [simp]: "roundEven (of_int n) = n"
  by (simp add: roundEven_def Let_def)

lemma roundEven_mono: "m \<le> m' \<Longrightarrow> roundEven m \<le> roundEven m'"
proof -
  assume le: "m \<le> m'"
  show ?thesis
  proof (cases "\<lfloor>m\<rfloor> = \<lfloor>m'\<rfloor>")
    case True
    with le show ?thesis by (auto simp add: roundEven_def Let_def)
  next
    case False
    with le have "\<lfloor>m\<rfloor> + 1 \<le> \<lfloor>m'\<rfloor>" using floor_mono [OF le] by linarith
    with roundEven_floor [of m] roundEven_floor [of m'] show ?thesis by linarith
  qed
qed

lemma roundEven_ge: "of_int n \<le> m \<Longrightarrow> n \<le> roundEven m"
  using roundEven_mono [of "of_int n" m] by simp

lemma roundEven_le: "m \<le> of_int n \<Longrightarrow> roundEven m \<le> n"
  using roundEven_mono [of m "of_int n"] by simp

lemma bitlen_floor_bounds:
  fixes y :: rat
  assumes "1 \<le> y"
  defines "k \<equiv> bitlen \<lfloor>y\<rfloor> - 1"
  shows "0 \<le> k" and "2 ^ nat k \<le> y" and "y < 2 ^ nat (k + 1)"
proof -
  define n where "n = \<lfloor>y\<rfloor>"
  have n1: "1 \<le> n" using assms by (simp add: n_def le_floor_iff)
  have nle: "of_int n \<le> y" and nlt: "y < of_int (n + 1)"
    using floor_correct [of y] by (simp_all add: n_def)
  have b: "2 ^ nat (bitlen n - 1) \<le> n" "n < 2 ^ nat (bitlen n)"
    using bitlen_bounds [of n] n1 by auto
  have pos: "1 \<le> bitlen n"
  proof (rule ccontr)
    assume "\<not> 1 \<le> bitlen n"
    then have "nat (bitlen n) = 0" by simp
    with b(2) n1 show False by simp
  qed
  show "0 \<le> k" using pos by (simp add: k_def n_def)
  have "(2::rat) ^ nat (bitlen n - 1) \<le> of_int n"
    using of_int_le_iff [of "2 ^ nat (bitlen n - 1)" n, where ?'a = rat] b(1) by simp
  with nle show "2 ^ nat k \<le> y" unfolding k_def n_def by linarith
  have "n + 1 \<le> 2 ^ nat (bitlen n)" using b(2) by simp
  then have "(of_int (n + 1) :: rat) \<le> 2 ^ nat (bitlen n)"
    using of_int_le_iff [of "n + 1" "2 ^ nat (bitlen n)", where ?'a = rat] by simp
  with nlt have "y < 2 ^ nat (bitlen n)" by linarith
  moreover have "nat (k + 1) = nat (bitlen n)" by (simp add: k_def n_def)
  ultimately show "y < 2 ^ nat (k + 1)" by simp
qed

text \<open>\<open>exponent\<close> is the binary exponent of a positive number.\<close>

lemma exponent_bounds:
  assumes "0 < x"
  shows "2 powi exponent x \<le> x \<and> x < 2 powi (exponent x + 1)"
proof (cases "1 \<le> x")
  case True
  from bitlen_floor_bounds [OF True] True show ?thesis
    by (simp add: exponent_def power_int_nonneg_exp)
next
  case False
  define k where "k = bitlen \<lfloor>1 / x\<rfloor> - 1"
  have y: "1 \<le> 1 / x" using False assms by simp
  note b = bitlen_floor_bounds [OF y, folded k_def]
  have up: "x * 2 ^ nat k \<le> 1"
    using b(2) assms by (simp add: field_simps)
  have lo: "1 < x * 2 ^ nat (k + 1)"
    using b(3) assms by (simp add: field_simps)
  have pk: "(2::rat) powi k = 2 ^ nat k" using b(1) by (simp add: power_int_nonneg_exp)
  show ?thesis
  proof (cases "x * 2 powi k = 1")
    case True
    then have e: "exponent x = - k" using False by (simp add: exponent_def k_def Let_def)
    from True have x: "x = 2 powi (- k)"
      by (simp add: power_int_minus field_simps)
    have "(2::rat) powi (- k + 1) = 2 powi (- k) * 2"
      by (rule power_int_add_1) simp
    with x assms show ?thesis unfolding e by simp
  next
    case ne: False
    then have e: "exponent x = - k - 1"
      using False by (simp add: exponent_def k_def Let_def)
    have m1: "(2::rat) powi (- k - 1) = 1 / 2 ^ nat (k + 1)"
      using b(1) by (simp add: power_int_def inverse_eq_divide nat_add_distrib power_one_over)
    have m0: "(2::rat) powi (- k - 1 + 1) = 1 / 2 ^ nat k"
      using b(1) by (simp add: power_int_def inverse_eq_divide power_one_over)
    from ne up pk have "x * 2 ^ nat k < 1" by simp
    then have "x < 1 / 2 ^ nat k" by (simp add: field_simps)
    moreover from lo have "1 / 2 ^ nat (k + 1) < x" by (simp add: field_simps)
    ultimately show ?thesis unfolding e m1 m0 by simp
  qed
qed

lemma double_zero [simp]: "double 0 = 0"
  by (simp add: double_def)

lemma double_minus: "double (- x) = - double x"
  by (simp add: double_def Let_def)

lemma ulp_split: "(2::rat) powi e = 2 ^ 52 * 2 powi (e - 52)"
  using power_int_add [of "2::rat" 52 "e - 52"] by simp

text \<open>Rounding keeps a positive number within its binade.\<close>

lemma double_pos_bounds:
  assumes "0 < x"
  shows "2 powi exponent x \<le> double x \<and> double x \<le> 2 powi (exponent x + 1)"
proof -
  define e where "e = exponent x"
  define u :: rat where "u = 2 powi (e - 52)"
  have u: "0 < u" by (simp add: u_def)
  have d: "double x = of_int (roundEven (x / u)) * u"
    using assms by (simp add: double_def Let_def u_def e_def)
  have lo: "2 ^ 52 * u \<le> x" and hi: "x < 2 ^ 53 * u"
    using exponent_bounds [OF assms] ulp_split [of e] ulp_split [of "e + 1"]
      power_int_add_1 [of "2::rat" "e - 52"]
    by (simp_all add: e_def u_def algebra_simps)
  have "of_int (2 ^ 52) \<le> x / u" using lo u by (simp add: field_simps)
  then have a: "2 ^ 52 \<le> roundEven (x / u)" by (rule roundEven_ge)
  have "x / u \<le> of_int (2 ^ 53)" using hi u by (simp add: field_simps)
  then have b: "roundEven (x / u) \<le> 2 ^ 53" by (rule roundEven_le)
  have "(2 ^ 52 :: rat) \<le> of_int (roundEven (x / u))"
    using a of_int_le_iff [of "2 ^ 52" "roundEven (x / u)", where ?'a = rat] by simp
  then have A: "2 ^ 52 * u \<le> double x"
    unfolding d using u by (simp add: mult_right_mono)
  have "(of_int (roundEven (x / u)) :: rat) \<le> 2 ^ 53"
    using b of_int_le_iff [of "roundEven (x / u)" "2 ^ 53", where ?'a = rat] by simp
  then have B: "double x \<le> 2 ^ 53 * u"
    unfolding d using u by (simp add: mult_right_mono)
  from A B show ?thesis
    using ulp_split [of e] ulp_split [of "e + 1"] power_int_add_1 [of "2::rat" "e - 52"]
    by (simp add: e_def u_def algebra_simps)
qed

lemma double_pos: "0 < x \<Longrightarrow> 0 < double x"
  using double_pos_bounds [of x] zero_less_power_int [of "2::rat" "exponent x"] by linarith

lemma double_nonneg: "0 \<le> x \<Longrightarrow> 0 \<le> double x"
  using double_pos [of x] by (cases "x = 0") (simp_all add: less_le)

lemma double_nonpos: "x \<le> 0 \<Longrightarrow> double x \<le> 0"
  using double_nonneg [of "- x"] by (simp add: double_minus)

lemma exponent_mono:
  assumes "0 < x" and "x \<le> y"
  shows "exponent x \<le> exponent y"
proof (rule ccontr)
  assume "\<not> exponent x \<le> exponent y"
  then have "exponent y + 1 \<le> exponent x" by simp
  then have "(2::rat) powi (exponent y + 1) \<le> 2 powi exponent x"
    by (simp add: power_int_increasing)
  with exponent_bounds [of x] exponent_bounds [of y] assms show False by linarith
qed

lemma double_mono_pos:
  assumes "0 < x" and "x \<le> y"
  shows "double x \<le> double y"
proof (cases "exponent x = exponent y")
  case True
  have y: "0 < y" using assms by simp
  define u :: rat where "u = 2 powi (exponent y - 52)"
  have u: "0 < u" by (simp add: u_def)
  have "x / u \<le> y / u" using assms u by (simp add: divide_right_mono)
  then have "roundEven (x / u) \<le> roundEven (y / u)" by (rule roundEven_mono)
  then have "(of_int (roundEven (x / u)) :: rat) \<le> of_int (roundEven (y / u))"
    by (simp only: of_int_le_iff)
  then have "of_int (roundEven (x / u)) * u \<le> of_int (roundEven (y / u)) * u"
    using u by (simp add: mult_right_mono)
  then show ?thesis
    using assms y True by (simp add: double_def Let_def u_def)
next
  case False
  with exponent_mono [OF assms] have "exponent x + 1 \<le> exponent y" by simp
  then have "(2::rat) powi (exponent x + 1) \<le> 2 powi exponent y"
    by (simp add: power_int_increasing)
  with double_pos_bounds [of x] double_pos_bounds [of y] assms show ?thesis by linarith
qed

text \<open>Rounding to the nearest double is monotone.\<close>

lemma double_mono: "x \<le> y \<Longrightarrow> double x \<le> double y"
proof -
  assume le: "x \<le> y"
  consider "0 < x" | "x \<le> 0" "0 \<le> y" | "y < 0" by linarith
  then show ?thesis
  proof cases
    case 1
    then show ?thesis using le by (rule double_mono_pos)
  next
    case 2
    with double_nonpos [of x] double_nonneg [of y] show ?thesis by linarith
  next
    case 3
    with le have "0 < - y" "- y \<le> - x" by simp_all
    then have "double (- y) \<le> double (- x)" by (rule double_mono_pos)
    then show ?thesis by (simp add: double_minus)
  qed
qed

lemma fdiv_mono: "0 < d \<Longrightarrow> x \<le> y \<Longrightarrow> fdiv x d \<le> fdiv y d"
  by (simp add: fdiv_def double_mono divide_right_mono)

lemma fsub_sign: "(y \<le> x \<longrightarrow> 0 \<le> fsub x y) \<and> (x \<le> y \<longrightarrow> fsub x y \<le> 0)"
  by (simp add: fsub_def double_nonneg double_nonpos)

text \<open>Some doubles: numbers that are doubles stay, the others move to the nearest.\<close>

lemma double_examples:
  "double 3 = 3" "double (1 / 4) = 1 / 4" "double (- 5 / 8) = - 5 / 8"
  "double 9007199254740992 = 9007199254740992"
  "double 9007199254740993 = 9007199254740992"
  "double 9007199254740995 = 9007199254740996"
  "double (1 / 3) = 6004799503160661 / 18014398509481984"
  "double (3 / 10) = 5404319552844595 / 18014398509481984"
  by code_simp+

text \<open>The doubles of the scenarios.\<close>

lemma double_tenth: "double (1 / 10) = 3602879701896397 / 36028797018963968"
  by code_simp

lemma requiredCollateral_BOT_CONFIG:
  "requiredCollateral BOT_CONFIG = 3602879701896397 / 18014398509481984"
  by code_simp

subsection \<open>Sequencing\<close>

lemma fst_andThen:
  "fst (andThen m f) = fst m @ (case snd m of Inl e \<Rightarrow> [] | Inr x \<Rightarrow> fst (f x))"
  by (simp add: andThen_def split: prod.splits sum.splits)

lemma snd_andThen:
  "snd (andThen m f) = (case snd m of Inl e \<Rightarrow> Inl e | Inr x \<Rightarrow> snd (f x))"
  by (simp add: andThen_def split: prod.splits sum.splits)

lemma andThen_pair:
  "andThen (t, r) f =
     (case r of Inl e \<Rightarrow> (t, Inl e) | Inr x \<Rightarrow> (t @ fst (f x), snd (f x)))"
  by (simp add: andThen_def split: prod.splits sum.splits)

lemma tryCatch_rethrow: "tryCatch m (\<lambda>error. throws error) = m"
  by (simp add: tryCatch_def throws_def split: prod.splits sum.splits)

lemma tryCatch_pair:
  "tryCatch (t, r) h =
     (case r of Inl e \<Rightarrow> (t @ fst (h e), snd (h e)) | Inr x \<Rightarrow> (t, Inr x))"
  by (simp add: tryCatch_def split: prod.splits sum.splits)

lemmas run_simps =
  andThen_pair tryCatch_rethrow tryCatch_pair calls_def emits_def returns_def throws_def

text \<open>The definitions of the workflow, for evaluating a run in a given world.\<close>

lemmas bot_defs =
  process_def exitCode_def main_def main_userAccount_def main_tradingClient_def
  placeTrade_def placeTrade_catch_def orderAmountTooSmall_def getTokenInfo_def getBalance_def
  depositToTradingAccount_def setupDelegate_def generateDelegateKeypair_def
  createDelegateClient_def truthy_def lessThan_js_def devnetWorld_def

lemma BOT_CONFIG_fields:
  "marketIndex BOT_CONFIG = 1" "orderSize BOT_CONFIG = 1 / 10"
  "price BOT_CONFIG = 16535 / 100" "depositAmount BOT_CONFIG = 1 / 2"
  "useDelegate BOT_CONFIG = False" "delegateTradingAccountId BOT_CONFIG = 0"
  "network BOT_CONFIG = ''devnet''"
  by (simp_all add: BOT_CONFIG_def)

subsection \<open>The readings of the balance\<close>

lemma getTradingAccountBalance_absent:
  "getTradingAccountBalance cfg (Inr None) = ([GetSpotPosition (marketIndex cfg)], Inr (Some 0))"
  by (simp add: getTradingAccountBalance_def run_simps)

lemma getTradingAccountBalance_throws:
  "getTradingAccountBalance cfg (Inl err) = ([GetSpotPosition (marketIndex cfg)], Inr (Some 0))"
  by (simp add: getTradingAccountBalance_def run_simps)

lemma getTradingAccountBalance_position:
  "getTradingAccountBalance cfg (position cd sb) =
     ([GetSpotPosition (marketIndex cfg)],
      Inr (Some (fsub (fdiv (of_int cd) (10 ^ 9)) (fdiv (of_int sb) (10 ^ 9)))))"
  by (simp add: getTradingAccountBalance_def position_def run_simps)

lemma fsub_self [simp]: "fsub x x = 0"
  by (simp add: fsub_def)

lemma balance_values:
  "fsub (fdiv 50000000 1000000000) (fdiv 0 1000000000) = 3602879701896397 / 72057594037927936"
  "fsub (fdiv 100000000 1000000000) (fdiv 0 1000000000) = 3602879701896397 / 36028797018963968"
  "fsub (fdiv 500000000 1000000000) (fdiv 0 1000000000) = 1 / 2"
  "fsub (fdiv 0 1000000000) (fdiv 1000000000 1000000000) = - 1"
  "fsub (fdiv 300000000 1000000000) (fdiv 100000000 1000000000) =
     7205759403792793 / 36028797018963968"
  "fsub (fdiv 9007199254740990 1000000000) (fdiv 9007199254740991 1000000000) = 0"
  "fsub (fdiv 9007199254740991 1000000000) (fdiv 9007199254740990 1000000000) = 0"
  "fsub (fdiv 700000000 1000000000) (fdiv 500000000 1000000000) =
     900719925474099 / 4503599627370496"
  by code_simp+

lemmas readings =
  getTradingAccountBalance_absent getTradingAccountBalance_throws
  getTradingAccountBalance_position balance_values requiredCollateral_BOT_CONFIG
  BOT_CONFIG_fields

subsection \<open>The parts of \<open>placeTrade\<close>\<close>

lemma getTradingAccountBalance_returns:
  "\<exists>v. getTradingAccountBalance cfg r = ([GetSpotPosition (marketIndex cfg)], Inr (Some v))"
  by (auto simp add: getTradingAccountBalance_def run_simps split: sum.splits option.splits)

lemma getTokenInfo_cases:
  "(\<exists>e. getTokenInfo cfg w s = ([], Inl (Error e))) \<or> (\<exists>t. getTokenInfo cfg w s = ([], Inr t))"
  by (simp add: getTokenInfo_def run_simps Let_def split: option.splits)

lemma placeTrade_catch_snd: "snd (placeTrade_catch e) = Inl e"
  by (simp add: placeTrade_catch_def run_simps split: js_error.splits)

lemma placeTrade_catch_Error: "placeTrade_catch (Error msg) = ([], Inl (Error msg))"
  by (simp add: placeTrade_catch_def run_simps)

text \<open>
  \<open>placeTrade\<close> as a decision table over the two readings \<open>v1\<close>, \<open>v2\<close> of the balance and
  the answers to the deposit and to the order.
\<close>

lemma placeTrade_unknown_market:
  assumes "getTokenInfo cfg w ''SOL'' = ([], Inl (Error msg))"
  shows "placeTrade cfg w c = ([], Inl (Error msg))"
  using assms by (simp add: placeTrade_def run_simps placeTrade_catch_Error)

lemma placeTrade_table:
  assumes "getTokenInfo cfg w ''SOL'' = ([], Inr tokenInfo)"
    and "getTradingAccountBalance cfg (getSpotPosition_1 w) = ([G], Inr (Some v1))"
    and "getTradingAccountBalance cfg (getSpotPosition_2 w) = ([G], Inr (Some v2))"
    and "A = GetAssociatedTokenAccount c (marketIndex cfg)"
    and "D = Deposit c (depositAmount cfg) (marketIndex cfg)"
    and "P = PlacePerpOrder c \<lparr> order_marketIndex = perp_marketIndex tokenInfo,
               baseAssetAmount = orderSize cfg, order_price = price cfg \<rparr>"
  shows "placeTrade cfg w c =
     (if v1 \<noteq> 0 \<and> \<not> v1 < requiredCollateral cfg then
        (case placePerpOrder w of
           Inl e \<Rightarrow> ([G, P] @ fst (placeTrade_catch e), Inl e)
         | Inr tx \<Rightarrow> ([G, P], Inr tx))
      else
        (case getAssociatedTokenAccount w of
           Inl e \<Rightarrow> ([G, A] @ fst (placeTrade_catch e), Inl e)
         | Inr ata \<Rightarrow>
             (case deposit w of
                Inl e \<Rightarrow> ([G, A, D] @ fst (placeTrade_catch e), Inl e)
              | Inr txSig \<Rightarrow>
                  if v2 \<noteq> 0 \<and> v2 < requiredCollateral cfg then
                    ([G, A, D, SetTimeout 5000, G],
                     Inl (Error ''Still insufficient balance in trading account after deposit''))
                  else
                    (case placePerpOrder w of
                       Inl e \<Rightarrow>
                         ([G, A, D, SetTimeout 5000, G, P] @ fst (placeTrade_catch e), Inl e)
                     | Inr tx \<Rightarrow> ([G, A, D, SetTimeout 5000, G, P], Inr tx)))))"
proof -
  note defs = placeTrade_def run_simps Let_def depositToTradingAccount_def
    truthy_def lessThan_js_def placeTrade_catch_snd
  show ?thesis
  proof (cases "v1 \<noteq> 0 \<and> \<not> v1 < requiredCollateral cfg")
    case True
    then show ?thesis
      using assms by (cases "placePerpOrder w") (simp_all add: defs)
  next
    case low: False
    show ?thesis
    proof (cases "getAssociatedTokenAccount w")
      case (Inl e)
      with low assms show ?thesis by (auto simp add: defs)
    next
      case ata: (Inr a)
      show ?thesis
      proof (cases "deposit w")
        case (Inl e)
        with low ata assms show ?thesis by (auto simp add: defs)
      next
        case dep: (Inr txSig)
        show ?thesis
        proof (cases "v2 \<noteq> 0 \<and> v2 < requiredCollateral cfg")
          case True
          with low ata dep assms show ?thesis
            by (auto simp add: defs placeTrade_catch_def)
        next
          case False
          with low ata dep assms show ?thesis
            by (cases "placePerpOrder w") (auto simp add: defs)
        qed
      qed
    qed
  qed
qed

lemma placeTrade_catch_filters:
  "filter isDeposit (fst (placeTrade_catch e)) = []"
  "filter isPlacePerpOrder (fst (placeTrade_catch e)) = []"
  "filter isGetSpotPosition (fst (placeTrade_catch e)) = []"
  "list_ex isDeposit (fst (placeTrade_catch e)) = False"
  "list_ex isPlacePerpOrder (fst (placeTrade_catch e)) = False"
  "list_ex isGetSpotPosition (fst (placeTrade_catch e)) = False"
  by (simp_all add: placeTrade_catch_def run_simps split: js_error.splits)

text \<open>
  When the order is submitted: after a first reading of at least twice the order size, or
  after a deposit and a second reading that is at least twice the order size or is zero.
\<close>

lemma placeTrade_submission_guard:
  assumes tok: "getTokenInfo cfg w ''SOL'' = ([], Inr tokenInfo)"
    and v1: "getTradingAccountBalance cfg (getSpotPosition_1 w) = ([G], Inr (Some v1))"
    and v2: "getTradingAccountBalance cfg (getSpotPosition_2 w) = ([G], Inr (Some v2))"
  shows "list_ex isPlacePerpOrder (fst (placeTrade cfg w c)) =
     (v1 \<noteq> 0 \<and> requiredCollateral cfg \<le> v1
      \<or> (v1 = 0 \<or> v1 < requiredCollateral cfg)
        \<and> (\<exists>ata. getAssociatedTokenAccount w = Inr ata) \<and> (\<exists>txSig. deposit w = Inr txSig)
        \<and> (v2 = 0 \<or> requiredCollateral cfg \<le> v2))"
proof -
  have G: "G = GetSpotPosition (marketIndex cfg)"
    using v1 getTradingAccountBalance_returns [of cfg "getSpotPosition_1 w"] by auto
  note tab = placeTrade_table [OF tok v1 v2 refl refl refl, of c]
  show ?thesis
    unfolding tab
    by (cases "placePerpOrder w"; cases "getAssociatedTokenAccount w"; cases "deposit w")
      (auto simp add: G placeTrade_catch_filters)
qed

lemma placeTrade_returns:
  assumes "snd (placeTrade cfg w c) = Inr tx"
  shows "placePerpOrder w = Inr tx \<and> list_ex isPlacePerpOrder (fst (placeTrade cfg w c))"
proof -
  obtain v1 where v1: "getTradingAccountBalance cfg (getSpotPosition_1 w) =
      ([GetSpotPosition (marketIndex cfg)], Inr (Some v1))"
    using getTradingAccountBalance_returns by blast
  obtain v2 where v2: "getTradingAccountBalance cfg (getSpotPosition_2 w) =
      ([GetSpotPosition (marketIndex cfg)], Inr (Some v2))"
    using getTradingAccountBalance_returns by blast
  from getTokenInfo_cases [of cfg w "''SOL''"] show ?thesis
  proof (elim disjE exE)
    fix msg assume "getTokenInfo cfg w ''SOL'' = ([], Inl (Error msg))"
    then have "placeTrade cfg w c = ([], Inl (Error msg))"
      by (rule placeTrade_unknown_market)
    with assms show ?thesis by simp
  next
    fix tokenInfo assume tok: "getTokenInfo cfg w ''SOL'' = ([], Inr tokenInfo)"
    note tab = placeTrade_table [OF tok v1 v2 refl refl refl, of c]
    from assms show ?thesis
      unfolding tab
      by (cases "placePerpOrder w"; cases "getAssociatedTokenAccount w"; cases "deposit w")
        (auto split: if_splits)
  qed
qed


text \<open>
  Scenario C of the specification: 0.05 SOL before and after the deposit stops the run
  before any order.
\<close>

lemma placeTrade_scenario_C:
  "placeTrade BOT_CONFIG
     (devnetWorld\<lparr>getSpotPosition_1 := position 50000000 0,
        getSpotPosition_2 := position 50000000 0\<rparr>) MainClient =
     ([GetSpotPosition 1, GetAssociatedTokenAccount MainClient 1,
       Deposit MainClient (1 / 2) 1, SetTimeout 5000, GetSpotPosition 1],
      Inl (Error ''Still insufficient balance in trading account after deposit''))"
  by (simp add: bot_defs run_simps readings)

text \<open>
  After a deposit, a second reading that is not zero and below the required collateral
  stops the run: one deposit, no order.
\<close>

lemma placeTrade_recheck_fatal:
  assumes "getTokenInfo cfg w ''SOL'' = ([], Inr tokenInfo)"
    and "getTradingAccountBalance cfg (getSpotPosition_1 w) = ([G], Inr (Some v1))"
    and "getTradingAccountBalance cfg (getSpotPosition_2 w) = ([G], Inr (Some v2))"
    and "v1 = 0 \<or> v1 < requiredCollateral cfg"
    and "getAssociatedTokenAccount w = Inr ata" and "deposit w = Inr txSig"
    and "v2 \<noteq> 0" and "v2 < requiredCollateral cfg"
  shows "placeTrade cfg w c =
     ([G, GetAssociatedTokenAccount c (marketIndex cfg),
       Deposit c (depositAmount cfg) (marketIndex cfg), SetTimeout 5000, G],
      Inl (Error ''Still insufficient balance in trading account after deposit''))"
  using assms(4-) by (auto simp add: placeTrade_table [OF assms(1-3) refl refl refl])

text \<open>
  What the handler of \<open>placeTrade\<close> prints for an error: nothing for an error that is not
  a \<open>SendTransactionError\<close>; for one, the logs and then either the order-too-small line,
  when some entry of the logs contains \<open>OrderAmountTooSmall\<close>, or the full error.
\<close>

lemma placeTrade_catch_fst:
  "fst (placeTrade_catch e) =
     (case e of
        Error msg \<Rightarrow> []
      | SendTransactionError logs \<Rightarrow>
          [ConsoleTransactionFailed, ConsoleSimulationLogs logs,
           if \<exists>ls. logs = Some ls \<and> (\<exists>entry\<in>set ls. sublist ''OrderAmountTooSmall'' entry)
           then ConsoleOrderSizeTooSmall else ConsoleFullError e])"
  by (cases e)
    (auto simp add: placeTrade_catch_def orderAmountTooSmall_def run_simps list_ex_iff
      split: option.splits)

text \<open>
  Readings at which rounding decides: 0.3 - 0.1 and 0.7 - 0.5 are below 0.2 in doubles,
  so the first makes the deposit and the second, read after it, stops the run;
  neighbouring integers near \<open>2^53\<close> give the same quotient, so their difference is 0.
\<close>

lemma placeTrade_rounded_reading_deposits:
  "placeTrade BOT_CONFIG
     (devnetWorld\<lparr>getSpotPosition_1 := position 300000000 100000000\<rparr>) MainClient =
     ([GetSpotPosition 1, GetAssociatedTokenAccount MainClient 1,
       Deposit MainClient (1 / 2) 1, SetTimeout 5000, GetSpotPosition 1,
       PlacePerpOrder MainClient
         \<lparr>order_marketIndex = 0, baseAssetAmount = 1 / 10, order_price = 16535 / 100\<rparr>],
      Inr ''sig-order'')"
  by (simp add: bot_defs run_simps readings)

lemma placeTrade_rounded_reading_throws:
  "placeTrade BOT_CONFIG
     (devnetWorld\<lparr>getSpotPosition_2 := position 700000000 500000000\<rparr>) MainClient =
     ([GetSpotPosition 1, GetAssociatedTokenAccount MainClient 1,
       Deposit MainClient (1 / 2) 1, SetTimeout 5000, GetSpotPosition 1],
      Inl (Error ''Still insufficient balance in trading account after deposit''))"
  by (simp add: bot_defs run_simps readings)

lemma getTradingAccountBalance_rounds_to_zero:
  "getTradingAccountBalance BOT_CONFIG (position 9007199254740990 9007199254740991) =
     ([GetSpotPosition 1], Inr (Some 0))"
  "getTradingAccountBalance BOT_CONFIG (position 9007199254740991 9007199254740990) =
     ([GetSpotPosition 1], Inr (Some 0))"
  by (simp_all add: readings)

subsection \<open>The outcome of \<open>main\<close>\<close>

lemma exitCode_iff:
  "(exitCode cfg w = 0) = (snd (main cfg w) = Inr ())"
  "(exitCode cfg w = 1) = (\<exists>err. snd (main cfg w) = Inl err)"
  by (cases "snd (main cfg w)"; simp add: exitCode_def)+

text \<open>
  \<open>main\<close> returns normally in two ways only: from the balance guard, or after an order
  that the exchange accepted.
\<close>

lemma main_returns:
  assumes "snd (main cfg w) = Inr ()"
  shows "connection_getBalance w = Inr 0
     \<or> (\<exists>tx. placePerpOrder w = Inr tx) \<and> list_ex isPlacePerpOrder (fst (main cfg w))"
proof (cases "loadKeypair w")
  case (Inl e)
  with assms show ?thesis by (simp add: main_def run_simps)
next
  case kp: (Inr mainWallet)
  show ?thesis
  proof (cases "connection_getBalance w")
    case (Inl e)
    with assms kp show ?thesis by (simp add: main_def getBalance_def run_simps)
  next
    case bal: (Inr lamports)
    show ?thesis
    proof (cases "lamports = 0")
      case True
      with bal show ?thesis by simp
    next
      case False
      with assms kp bal
      obtain c tx where "snd (placeTrade cfg w c) = Inr tx"
        and "\<exists>t. fst (main cfg w) = t @ fst (placeTrade cfg w c)"
        by (auto simp add: main_def getBalance_def run_simps snd_andThen fst_andThen
            double_tenth split: sum.splits)
      with placeTrade_returns [of cfg w c tx] show ?thesis by auto
    qed
  qed
qed

text \<open>
  The delegate keypair is the one \<open>Keypair.generate()\<close> answers: no run reads the main
  wallet's keypair to make it.
\<close>

lemma generateDelegateKeypair_local:
  "generateDelegateKeypair w = ([KeypairGenerate], Inr (Keypair_generate w))"
  "generateDelegateKeypair (w\<lparr>loadKeypair := k\<rparr>) = generateDelegateKeypair w"
  "setupDelegate (w\<lparr>loadKeypair := k\<rparr>) accountId = setupDelegate w accountId"
  by (simp_all add: generateDelegateKeypair_def setupDelegate_def run_simps)

section \<open>The claims\<close>

subsection \<open>The collateral check of \<open>placeTrade\<close>\<close>

text \<open>
  C1. The order is to be submitted only when the balance read last is at least twice the
  order size. With \<open>BOT_CONFIG\<close> on devnet, a spot position that is absent before and
  after the deposit reads as 0 both times; the second check lets 0 pass, and the order is
  submitted with a last reading of 0, below the required 0.2.
\<close>

theorem placeTrade_submits_after_zero_reading:
  "getTradingAccountBalance BOT_CONFIG (getSpotPosition_2 devnetWorld) =
     ([GetSpotPosition 1], Inr (Some 0))
   \<and> (0 :: rat) < orderSize BOT_CONFIG * 2
   \<and> placeTrade BOT_CONFIG devnetWorld MainClient =
     ([GetSpotPosition 1, GetAssociatedTokenAccount MainClient 1,
       Deposit MainClient (1 / 2) 1, SetTimeout 5000, GetSpotPosition 1,
       PlacePerpOrder MainClient
         \<lparr>order_marketIndex = 0, baseAssetAmount = 1 / 10, order_price = 16535 / 100\<rparr>],
      Inr ''sig-order'')"
  by (simp add: bot_defs run_simps readings)

text \<open>In that run one order is submitted, and it is accepted.\<close>

theorem placeTrade_submits_after_zero_reading_witness:
  "length (filter isPlacePerpOrder (fst (placeTrade BOT_CONFIG devnetWorld MainClient))) = 1
   \<and> snd (placeTrade BOT_CONFIG devnetWorld MainClient) = Inr ''sig-order''"
  using placeTrade_submits_after_zero_reading by simp

text \<open>
  C2. The check made just before the submission, the second reading after the deposit, is
  to be fatal when it finds the collateral insufficient, and to deposit nothing. It
  deposits nothing, and it is fatal for every insufficient reading but zero: with 0.1 SOL
  at the first reading and, after the deposit, deposits and scaled balance equal (a
  reading of 0, below the required 0.2), nothing is thrown and the order is submitted.
\<close>

theorem placeTrade_zero_recheck_not_fatal:
  "getTradingAccountBalance BOT_CONFIG (position 600000000 600000000) =
     ([GetSpotPosition 1], Inr (Some 0))
   \<and> 0 < requiredCollateral BOT_CONFIG
   \<and> placeTrade BOT_CONFIG
       (devnetWorld\<lparr>getSpotPosition_1 := position 100000000 0,
          getSpotPosition_2 := position 600000000 600000000\<rparr>) MainClient =
     ([GetSpotPosition 1, GetAssociatedTokenAccount MainClient 1,
       Deposit MainClient (1 / 2) 1, SetTimeout 5000, GetSpotPosition 1,
       PlacePerpOrder MainClient
         \<lparr>order_marketIndex = 0, baseAssetAmount = 1 / 10, order_price = 16535 / 100\<rparr>],
      Inr ''sig-order'')"
  by (simp add: bot_defs run_simps readings)

text \<open>In that run the one deposit is the guard's, and the run ends without an error.\<close>

theorem placeTrade_zero_recheck_not_fatal_witness:
  "length (filter isDeposit (fst (placeTrade BOT_CONFIG
       (devnetWorld\<lparr>getSpotPosition_1 := position 100000000 0,
          getSpotPosition_2 := position 600000000 600000000\<rparr>) MainClient))) = 1
   \<and> snd (placeTrade BOT_CONFIG
       (devnetWorld\<lparr>getSpotPosition_1 := position 100000000 0,
          getSpotPosition_2 := position 600000000 600000000\<rparr>) MainClient) =
     Inr ''sig-order''"
  using placeTrade_zero_recheck_not_fatal by simp

subsection \<open>The free collateral\<close>

text \<open>
  C3. The value read is said never to be negative. With no deposits recorded and a scaled
  balance of 1 SOL, \<open>getTradingAccountBalance\<close> gives \<open>-1\<close>.
\<close>

theorem getTradingAccountBalance_negative:
  "getTradingAccountBalance BOT_CONFIG (position 0 1000000000) =
     ([GetSpotPosition 1], Inr (Some (- 1)))"
  by (simp add: readings)

text \<open>
  C3, as the code has it. \<open>getTradingAccountBalance\<close> always returns a number, never
  \<open>null\<close> and never an error. The number is 0 when the position is absent and when
  \<open>getSpotPosition\<close> or either \<open>toNumber\<close> throws; otherwise it is the difference, in
  doubles, of \<open>cumulativeDeposits / 1e9\<close> and \<open>scaledBalance / 1e9\<close>. That difference is
  not negative when \<open>scaledBalance\<close> is at most \<open>cumulativeDeposits\<close>, and not positive
  when \<open>cumulativeDeposits\<close> is at most \<open>scaledBalance\<close>.
\<close>

theorem getTradingAccountBalance_value:
  "(\<exists>v. getTradingAccountBalance cfg r = ([GetSpotPosition (marketIndex cfg)], Inr (Some v)))
   \<and> getTradingAccountBalance cfg (Inr None) =
       ([GetSpotPosition (marketIndex cfg)], Inr (Some 0))
   \<and> getTradingAccountBalance cfg (Inl err) =
       ([GetSpotPosition (marketIndex cfg)], Inr (Some 0))
   \<and> getTradingAccountBalance cfg
         (Inr (Some \<lparr> cumulativeDeposits = Inl err, scaledBalance = s \<rparr>)) =
       ([GetSpotPosition (marketIndex cfg)], Inr (Some 0))
   \<and> getTradingAccountBalance cfg
         (Inr (Some \<lparr> cumulativeDeposits = Inr cd, scaledBalance = Inl err \<rparr>)) =
       ([GetSpotPosition (marketIndex cfg)], Inr (Some 0))
   \<and> getTradingAccountBalance cfg (position cd sb) =
       ([GetSpotPosition (marketIndex cfg)],
        Inr (Some (fsub (fdiv (of_int cd) (10 ^ 9)) (fdiv (of_int sb) (10 ^ 9)))))
   \<and> (\<exists>v. getTradingAccountBalance cfg (position cd sb) =
            ([GetSpotPosition (marketIndex cfg)], Inr (Some v))
          \<and> (sb \<le> cd \<longrightarrow> 0 \<le> v) \<and> (cd \<le> sb \<longrightarrow> v \<le> 0))"
proof -
  have le: "a \<le> b \<Longrightarrow> fdiv (of_int a) (10 ^ 9) \<le> fdiv (of_int b) (10 ^ 9)" for a b :: int
    by (rule fdiv_mono) simp_all
  have sign: "(sb \<le> cd \<longrightarrow>
        0 \<le> fsub (fdiv (of_int cd) (10 ^ 9)) (fdiv (of_int sb) (10 ^ 9)))
      \<and> (cd \<le> sb \<longrightarrow>
        fsub (fdiv (of_int cd) (10 ^ 9)) (fdiv (of_int sb) (10 ^ 9)) \<le> 0)"
    using le [of sb cd] le [of cd sb] fsub_sign by blast
  have ret: "\<exists>v. getTradingAccountBalance cfg r =
      ([GetSpotPosition (marketIndex cfg)], Inr (Some v))"
    by (rule getTradingAccountBalance_returns)
  have thr: "getTradingAccountBalance cfg
         (Inr (Some \<lparr> cumulativeDeposits = Inl err, scaledBalance = s \<rparr>)) =
       ([GetSpotPosition (marketIndex cfg)], Inr (Some 0))"
     "getTradingAccountBalance cfg
         (Inr (Some \<lparr> cumulativeDeposits = Inr cd, scaledBalance = Inl err \<rparr>)) =
       ([GetSpotPosition (marketIndex cfg)], Inr (Some 0))"
    by (simp_all add: getTradingAccountBalance_def run_simps)
  from ret thr sign show ?thesis
    by (simp add: getTradingAccountBalance_absent getTradingAccountBalance_throws
        getTradingAccountBalance_position)
qed

text \<open>The theorem at deposits of 0.3 SOL and a scaled balance of 0.1 SOL.\<close>

theorem getTradingAccountBalance_value_witness:
  "(100000000 :: int) \<le> 300000000
   \<and> getTradingAccountBalance BOT_CONFIG (position 300000000 100000000) =
       ([GetSpotPosition 1], Inr (Some (7205759403792793 / 36028797018963968)))
   \<and> (0 :: rat) \<le> 7205759403792793 / 36028797018963968"
  using getTradingAccountBalance_value [of BOT_CONFIG "Inr None" "Error []" "Inr 0"
      300000000 100000000]
  by (simp add: readings)

subsection \<open>The exit code\<close>

text \<open>
  C4. Exit code 0 is to mean that the whole workflow succeeded. With an empty wallet
  \<open>main\<close> returns from its balance guard, no step of the workflow has run, no order was
  submitted, and the process exits with 0.
\<close>

theorem exit_zero_without_order:
  "process BOT_CONFIG (devnetWorld\<lparr>connection_getBalance := Inr 0\<rparr>) =
     [LoadKeypair, GetBalance, ProcessExit 0]"
  by (simp add: bot_defs run_simps double_tenth)

text \<open>The run ends with exit code 0 and holds no order.\<close>

theorem exit_zero_without_order_witness:
  "last (process BOT_CONFIG (devnetWorld\<lparr>connection_getBalance := Inr 0\<rparr>)) = ProcessExit 0
   \<and> \<not> list_ex isPlacePerpOrder
         (process BOT_CONFIG (devnetWorld\<lparr>connection_getBalance := Inr 0\<rparr>))"
  using exit_zero_without_order by simp

subsection \<open>The second reading\<close>

text \<open>
  C5. A second reading below twice the order size is to stop the run before any order.
  With 0.05 SOL at the first reading and a second reading of 0 (deposits and scaled balance
  equal), \<open>placeTrade\<close> does not throw: it submits the order and returns its signature.
\<close>

theorem placeTrade_still_insufficient_not_raised:
  "getTradingAccountBalance BOT_CONFIG (position 50000000 0) =
     ([GetSpotPosition 1], Inr (Some (3602879701896397 / 72057594037927936)))
   \<and> getTradingAccountBalance BOT_CONFIG (position 550000000 550000000) =
     ([GetSpotPosition 1], Inr (Some 0))
   \<and> placeTrade BOT_CONFIG
     (devnetWorld\<lparr>getSpotPosition_1 := position 50000000 0,
        getSpotPosition_2 := position 550000000 550000000\<rparr>) MainClient =
     ([GetSpotPosition 1, GetAssociatedTokenAccount MainClient 1,
       Deposit MainClient (1 / 2) 1, SetTimeout 5000, GetSpotPosition 1,
       PlacePerpOrder MainClient
         \<lparr>order_marketIndex = 0, baseAssetAmount = 1 / 10, order_price = 16535 / 100\<rparr>],
      Inr ''sig-order'')"
  by (simp add: bot_defs run_simps readings)

text \<open>In that run one order is submitted and nothing is thrown.\<close>

theorem placeTrade_still_insufficient_not_raised_witness:
  "length (filter isPlacePerpOrder (fst (placeTrade BOT_CONFIG
     (devnetWorld\<lparr>getSpotPosition_1 := position 50000000 0,
        getSpotPosition_2 := position 550000000 550000000\<rparr>) MainClient))) = 1
   \<and> snd (placeTrade BOT_CONFIG
     (devnetWorld\<lparr>getSpotPosition_1 := position 50000000 0,
        getSpotPosition_2 := position 550000000 550000000\<rparr>) MainClient) =
     Inr ''sig-order''"
  using placeTrade_still_insufficient_not_raised by simp

subsection \<open>The user account\<close>

text \<open>
  C6. When \<open>hasUser()\<close> is false and the creation request is accepted, the account is
  looked up at most twice: once after a wait of 5000 ms and, if it was absent, once more
  after a wait of 3000 ms. When it is absent both times the block throws
  \<open>User account still not found after\<close> and nothing more is asked.
\<close>

theorem main_userAccount_bounded_polling:
  assumes "\<not> hasUser w" and "initializeUserAccount w = Inr txSig"
  shows "count_list (fst (main_userAccount w)) GetUserAccount \<le> 2
    \<and> (\<exists>t. fst (main_userAccount w) =
            [HasUser, InitializeUserAccount 0, SetTimeout 5000, GetUserAccount] @ t
          \<and> (t = [] \<or> t = [SetTimeout 3000, GetUserAccount]))
    \<and> (getUserAccount_1 w = Inr False \<and> getUserAccount_2 w = Inr False \<longrightarrow>
         main_userAccount w =
           ([HasUser, InitializeUserAccount 0, SetTimeout 5000, GetUserAccount,
             SetTimeout 3000, GetUserAccount],
            Inl (Error ''User account still not found after'')))"
  using assms
  by (cases "getUserAccount_1 w"; cases "getUserAccount_2 w")
    (simp_all add: main_userAccount_def run_simps)

text \<open>The theorem in a world where the account never appears.\<close>

theorem main_userAccount_bounded_polling_witness:
  "\<not> hasUser (devnetWorld\<lparr>hasUser := False, getUserAccount_1 := Inr False,
        getUserAccount_2 := Inr False\<rparr>)
   \<and> main_userAccount (devnetWorld\<lparr>hasUser := False, getUserAccount_1 := Inr False,
        getUserAccount_2 := Inr False\<rparr>) =
     ([HasUser, InitializeUserAccount 0, SetTimeout 5000, GetUserAccount,
       SetTimeout 3000, GetUserAccount],
      Inl (Error ''User account still not found after''))"
  using main_userAccount_bounded_polling [of
      "devnetWorld\<lparr>hasUser := False, getUserAccount_1 := Inr False,
        getUserAccount_2 := Inr False\<rparr>" "''sig-init''"]
  by (simp add: devnetWorld_def)

text \<open>
  C7. When \<open>hasUser()\<close> is true the block does nothing but ask: it returns at once, with
  no creation request and no other call that sends a transaction.
\<close>

theorem main_userAccount_idempotent:
  assumes "hasUser w"
  shows "main_userAccount w = ([HasUser], Inr ())
    \<and> \<not> list_ex isMutating (fst (main_userAccount w))"
  using assms by (simp add: main_userAccount_def run_simps)

text \<open>The theorem on devnet, where the account exists.\<close>

theorem main_userAccount_idempotent_witness:
  "hasUser devnetWorld \<and> main_userAccount devnetWorld = ([HasUser], Inr ())"
  using main_userAccount_idempotent [of devnetWorld]
  by (simp add: bot_defs)

subsection \<open>A rejected order\<close>

text \<open>
  C8. A rejection for too small an order is said to leave \<open>placeTrade\<close> classified as a
  kind of its own. What \<open>placeTrade\<close> throws is the error it caught: for a rejection whose
  logs contain \<open>OrderAmountTooSmall\<close> and for one whose logs do not, it is the same
  \<open>SendTransactionError\<close> with its logs, and the process exits with 1 in both runs.
\<close>

theorem placeTrade_too_small_same_error:
  "snd (placeTrade BOT_CONFIG
       (devnetWorld\<lparr>getSpotPosition_1 := position 500000000 0,
          placePerpOrder := Inl (SendTransactionError
            (Some [''Program log: Error Code: OrderAmountTooSmall'']))\<rparr>) MainClient) =
     Inl (SendTransactionError (Some [''Program log: Error Code: OrderAmountTooSmall'']))
   \<and> snd (placeTrade BOT_CONFIG
       (devnetWorld\<lparr>getSpotPosition_1 := position 500000000 0,
          placePerpOrder := Inl (SendTransactionError
            (Some [''Program log: Error Code: MarketPaused'']))\<rparr>) MainClient) =
     Inl (SendTransactionError (Some [''Program log: Error Code: MarketPaused'']))
   \<and> exitCode BOT_CONFIG
       (devnetWorld\<lparr>getSpotPosition_1 := position 500000000 0,
          placePerpOrder := Inl (SendTransactionError
            (Some [''Program log: Error Code: OrderAmountTooSmall'']))\<rparr>) = 1
   \<and> exitCode BOT_CONFIG
       (devnetWorld\<lparr>getSpotPosition_1 := position 500000000 0,
          placePerpOrder := Inl (SendTransactionError
            (Some [''Program log: Error Code: MarketPaused'']))\<rparr>) = 1"
  by (simp add: bot_defs run_simps readings double_tenth sublist_code prefix_code)

text \<open>
  C8, as the code has it. When the submission of the order is reached and
  \<open>placePerpOrder\<close> throws, \<open>placeTrade\<close> throws that same error, with its logs, and has
  called \<open>placePerpOrder\<close> exactly once. The kind of the failure shows in what is printed
  after the call only: for a \<open>SendTransactionError\<close> the simulation logs, followed by the
  order-too-small line exactly when an entry of the logs contains \<open>OrderAmountTooSmall\<close>
  and by the full error otherwise; for any other error nothing.
\<close>

theorem placeTrade_rejected_order:
  assumes sub: "placePerpOrder w = Inl e"
    and att: "list_ex isPlacePerpOrder (fst (placeTrade cfg w c))"
  shows "snd (placeTrade cfg w c) = Inl e
    \<and> length (filter isPlacePerpOrder (fst (placeTrade cfg w c))) = 1
    \<and> (\<exists>t p. \<not> list_ex isPlacePerpOrder t
          \<and> fst (placeTrade cfg w c) =
              t @ PlacePerpOrder c p #
              (case e of
                 Error msg \<Rightarrow> []
               | SendTransactionError logs \<Rightarrow>
                   [ConsoleTransactionFailed, ConsoleSimulationLogs logs,
                    if \<exists>ls. logs = Some ls
                          \<and> (\<exists>entry\<in>set ls. sublist ''OrderAmountTooSmall'' entry)
                    then ConsoleOrderSizeTooSmall else ConsoleFullError e]))"
proof -
  obtain v1 where v1: "getTradingAccountBalance cfg (getSpotPosition_1 w) =
      ([GetSpotPosition (marketIndex cfg)], Inr (Some v1))"
    using getTradingAccountBalance_returns by blast
  obtain v2 where v2: "getTradingAccountBalance cfg (getSpotPosition_2 w) =
      ([GetSpotPosition (marketIndex cfg)], Inr (Some v2))"
    using getTradingAccountBalance_returns by blast
  from getTokenInfo_cases [of cfg w "''SOL''"] show ?thesis
  proof (elim disjE exE)
    fix msg assume "getTokenInfo cfg w ''SOL'' = ([], Inl (Error msg))"
    then have "placeTrade cfg w c = ([], Inl (Error msg))"
      by (rule placeTrade_unknown_market)
    with att show ?thesis by simp
  next
    fix tokenInfo assume tok: "getTokenInfo cfg w ''SOL'' = ([], Inr tokenInfo)"
    note tab = placeTrade_table [OF tok v1 v2 refl refl refl, of c]
    note c = placeTrade_catch_fst [of e, symmetric]
    show ?thesis
    proof (cases "v1 \<noteq> 0 \<and> \<not> v1 < requiredCollateral cfg")
      case True
      with tab sub show ?thesis
        unfolding c
        by (intro conjI exI [of _ "[GetSpotPosition (marketIndex cfg)]"] exI)
          (simp_all add: placeTrade_catch_filters)
    next
      case low: False
      show ?thesis
      proof (cases "getAssociatedTokenAccount w")
        case (Inl e')
        with low tab att show ?thesis by (auto simp add: placeTrade_catch_filters)
      next
        case ata: (Inr a)
        show ?thesis
        proof (cases "deposit w")
          case (Inl e')
          with low ata tab att show ?thesis by (auto simp add: placeTrade_catch_filters)
        next
          case dep: (Inr txSig)
          show ?thesis
          proof (cases "v2 \<noteq> 0 \<and> v2 < requiredCollateral cfg")
            case True
            with low ata dep tab att show ?thesis by auto
          next
            case False
            with low ata dep tab sub show ?thesis
              unfolding c
              by (intro conjI exI [of _ "[GetSpotPosition (marketIndex cfg),
                    GetAssociatedTokenAccount c (marketIndex cfg),
                    Deposit c (depositAmount cfg) (marketIndex cfg), SetTimeout 5000,
                    GetSpotPosition (marketIndex cfg)]"] exI)
                (auto simp add: placeTrade_catch_filters)
          qed
        qed
      qed
    qed
  qed
qed

text \<open>
  The theorem at an order rejected as too small on devnet, the first reading being
  0.5 SOL.
\<close>

theorem placeTrade_rejected_order_witness:
  "placeTrade BOT_CONFIG
     (devnetWorld\<lparr>getSpotPosition_1 := position 500000000 0,
        placePerpOrder := Inl (SendTransactionError
          (Some [''Program log: Error Code: OrderAmountTooSmall'']))\<rparr>) MainClient =
   ([GetSpotPosition 1,
     PlacePerpOrder MainClient
       \<lparr>order_marketIndex = 0, baseAssetAmount = 1 / 10, order_price = 16535 / 100\<rparr>,
     ConsoleTransactionFailed,
     ConsoleSimulationLogs (Some [''Program log: Error Code: OrderAmountTooSmall'']),
     ConsoleOrderSizeTooSmall],
    Inl (SendTransactionError (Some [''Program log: Error Code: OrderAmountTooSmall''])))"
  using placeTrade_rejected_order [of
      "devnetWorld\<lparr>getSpotPosition_1 := position 500000000 0,
        placePerpOrder := Inl (SendTransactionError
          (Some [''Program log: Error Code: OrderAmountTooSmall'']))\<rparr>"
      "SendTransactionError (Some [''Program log: Error Code: OrderAmountTooSmall''])"
      BOT_CONFIG MainClient]
  by (simp add: bot_defs run_simps readings sublist_code prefix_code)

subsection \<open>The balance guard of \<open>main\<close>\<close>

text \<open>
  C10. \<open>getBalance\<close> returns lamports and \<open>main\<close> compares them with 0.1: when the
  keypair loads and the balance is read, \<open>main\<close> returns from the guard exactly when the
  wallet holds 0 lamports, and goes on to subscribe the client exactly when it holds at
  least 1 lamport.
\<close>

theorem main_balance_guard:
  assumes "loadKeypair w = Inr mainWallet" and "connection_getBalance w = Inr lamports"
  shows "(main cfg w = ([LoadKeypair, GetBalance], Inr ())) = (lamports = 0)
    \<and> (take 3 (fst (main cfg w)) = [LoadKeypair, GetBalance, Subscribe MainClient])
        = (1 \<le> lamports)"
  using assms
  by (cases "main_subscribe w")
    (auto simp add: main_def getBalance_def run_simps double_tenth)

text \<open>The theorem for a wallet of one lamport.\<close>

theorem main_balance_guard_witness:
  "loadKeypair devnetWorld = Inr \<lparr> publicKey = 11, secretKey = 12 \<rparr>
   \<and> connection_getBalance (devnetWorld\<lparr>connection_getBalance := Inr 1\<rparr>) = Inr 1
   \<and> main BOT_CONFIG (devnetWorld\<lparr>connection_getBalance := Inr 1\<rparr>)
       \<noteq> ([LoadKeypair, GetBalance], Inr ())
   \<and> take 3 (fst (main BOT_CONFIG (devnetWorld\<lparr>connection_getBalance := Inr 1\<rparr>))) =
       [LoadKeypair, GetBalance, Subscribe MainClient]"
  using main_balance_guard [of "devnetWorld\<lparr>connection_getBalance := Inr 1\<rparr>"
      "\<lparr> publicKey = 11, secretKey = 12 \<rparr>" 1 BOT_CONFIG]
  by (simp add: devnetWorld_def)

end
